theory Spec2Isabelle
  imports Main
begin

section \<open>The EduBot launcher (\<^verbatim>\<open>src/edubot/run.py\<close>)\<close>

text \<open>
  The launcher is control-flow glue: it validates a token, constructs a bot and starts it,
  either with the bot's blocking run or as a task on the event loop of an interactive
  console. Everything it does is an effect, so the embedding passes an explicit world
  through every call and keeps a trace of the calls made to the bot and to the event
  loop. An exception is a value \<open>Inl e\<close>; the world is returned next to it, because what
  was done before a raise stays done.
\<close>

subsection \<open>Python values and exceptions\<close>

text \<open>
  The token is annotated \<^verbatim>\<open>Optional[str]\<close>, but nothing stops a caller from passing
  any object, and \<^verbatim>\<open>validate_token\<close> tests for exactly that. \<open>PyObj\<close> stands for
  an instance of any other class, with the default truth value of an object.
\<close>

datatype pyval =
    PyNone
  | PyBool bool
  | PyInt int
  | PyStr string
  | PyObj nat

datatype error =
    AssertionError string
  | ImportError string
  | ModuleNotFoundError string
  | AttributeError string
  | RuntimeError string
  | OtherError string

text \<open>\<^verbatim>\<open>isinstance(v, str)\<close>\<close>

fun isinstance_str :: "pyval \<Rightarrow> bool" where
  "isinstance_str (PyStr s) = True"
| "isinstance_str v = False"

text \<open>
  \<^verbatim>\<open>len(v)\<close> is only reached for a string (the \<^verbatim>\<open>and\<close> before it short-circuits);
  on the other values of the model Python raises a \<^verbatim>\<open>TypeError\<close>, which is \<open>None\<close> here.
  A \<open>string\<close> is a list of bytes and Python counts code points: the two lengths are zero
  for the same strings, and only that is tested.
\<close>

fun py_len :: "pyval \<Rightarrow> nat option" where
  "py_len (PyStr s) = Some (length s)"
| "py_len v = None"

text \<open>The truth value of an object, as \<^verbatim>\<open>not x\<close> and \<^verbatim>\<open>x if c else y\<close> test it.\<close>

fun py_truthy :: "pyval \<Rightarrow> bool" where
  "py_truthy PyNone = False"
| "py_truthy (PyBool b) = b"
| "py_truthy (PyInt i) = (i \<noteq> 0)"
| "py_truthy (PyStr s) = (s \<noteq> [])"
| "py_truthy (PyObj n) = True"

text \<open>\<^verbatim>\<open>except ImportError\<close> also catches the subclass \<^verbatim>\<open>ModuleNotFoundError\<close>.\<close>

fun is_ImportError :: "error \<Rightarrow> bool" where
  "is_ImportError (ImportError m) = True"
| "is_ImportError (ModuleNotFoundError m) = True"
| "is_ImportError e = False"

subsection \<open>The world: event loops, bots and the trace of calls\<close>

type_synonym loop_id = nat
type_synonym bot_id = nat

text \<open>
  Calling an \<^verbatim>\<open>async def\<close> runs none of its body: it returns a coroutine object.
  \<open>EduBot_start_coro b t\<close> is the object \<^verbatim>\<open>bot.start(token)\<close> returns; \<open>Other_coro\<close>
  stands for any other coroutine a user of the console hands to \<^verbatim>\<open>create_task\<close>.
\<close>

datatype coroutine =
    EduBot_start_coro bot_id pyval
  | Other_coro nat

text \<open>A task handle knows the loop it was scheduled on and the coroutine it wraps.\<close>

datatype task = Task (task_loop: loop_id) (task_coro: coroutine)

datatype event =
    Loop_created loop_id
  | Debug_set loop_id bool
  | Bot_constructed bot_id
  | Blocking_run bot_id pyval
  | Task_created loop_id coroutine

record event_loop =
  debug :: bool
  scheduled :: "coroutine list"

text \<open>
  The world of the calling thread. \<open>current_loop\<close> is the loop
  \<^verbatim>\<open>asyncio.get_event_loop\<close> finds: the running loop, or else the loop set for the
  thread. \<open>set_called\<close> is the policy's flag that a loop has been set for the thread
  before (by \<^verbatim>\<open>set_event_loop\<close>, which \<^verbatim>\<open>asyncio.run\<close> calls too, leaving no loop
  set when it ends); \<open>main_thread\<close> tells whether the thread is the main one.
\<close>

record world =
  current_loop :: "loop_id option"
  set_called :: bool
  main_thread :: bool
  loops :: "loop_id \<Rightarrow> event_loop"
  next_loop :: loop_id
  next_bot :: bot_id
  trace :: "event list"

type_synonym 'a result = "(error + 'a) \<times> world"

subsection \<open>The event loop (\<^verbatim>\<open>asyncio\<close>)\<close>

text \<open>
  \<^verbatim>\<open>asyncio.get_event_loop()\<close>: the current loop when there is one. When there is
  none, the policy makes a new loop and sets it, but only if no loop has been set for the
  thread before and the thread is the main one; otherwise it raises
  \<^verbatim>\<open>RuntimeError\<close> (``There is no current event loop in thread ...'', the thread's name
  left out here) and changes nothing. A new loop starts with debug mode off and nothing
  scheduled, and setting it raises the policy's flag.
\<close>

definition get_event_loop :: "world \<Rightarrow> loop_id result" where
  "get_event_loop w =
     (case current_loop w of
        Some l \<Rightarrow> (Inr l, w)
      | None \<Rightarrow>
          (if \<not> set_called w \<and> main_thread w then
             (let l = next_loop w
              in (Inr l, w\<lparr>current_loop := Some l,
                          set_called := True,
                          loops := (loops w)(l := \<lparr>debug = False, scheduled = []\<rparr>),
                          next_loop := Suc l,
                          trace := trace w @ [Loop_created l]\<rparr>))
           else (Inl (RuntimeError ''There is no current event loop''), w)))"

text \<open>\<^verbatim>\<open>loop.set_debug(enabled)\<close>\<close>

definition set_debug :: "loop_id \<Rightarrow> bool \<Rightarrow> world \<Rightarrow> world" where
  "set_debug l enabled w =
     w\<lparr>loops := (loops w)(l := (loops w l)\<lparr>debug := enabled\<rparr>),
       trace := trace w @ [Debug_set l enabled]\<rparr>"

text \<open>
  \<^verbatim>\<open>loop.create_task(coro)\<close> wraps the coroutine in a task, puts it behind what the
  loop already has to run and returns the task. Nothing of the coroutine runs until the
  host of the loop processes it.
\<close>

definition loop_create_task :: "loop_id \<Rightarrow> coroutine \<Rightarrow> world \<Rightarrow> task \<times> world" where
  "loop_create_task l coro w =
     (Task l coro,
      w\<lparr>loops := (loops w)(l := (loops w l)\<lparr>scheduled := scheduled (loops w l) @ [coro]\<rparr>),
        trace := trace w @ [Task_created l coro]\<rparr>)"

subsection \<open>The bot (\<^verbatim>\<open>edubot.bot.EduBot\<close>)\<close>

text \<open>
  Modelled from the spec: the constructor of the class \<^verbatim>\<open>EduBot\<close> of
  \<^verbatim>\<open>edubot/bot.py\<close>, which is not among the sources. The spec calls the bot ``an
  externally-defined object with blocking and non-blocking start entry points'', owned
  by the runner that constructs it. Constructing it yields a fresh bot.
\<close>

definition EduBot :: "world \<Rightarrow> bot_id \<times> world" where
  "EduBot w =
     (let b = next_bot w
      in (b, w\<lparr>next_bot := Suc b, trace := trace w @ [Bot_constructed b]\<rparr>))"

text \<open>
  Modelled from the spec: the method \<^verbatim>\<open>EduBot.run\<close>, not among the sources: the
  blocking entry point, which ``occupies the calling thread of control until the bot
  terminates''. The call is recorded when it is entered.
\<close>

definition EduBot_run :: "bot_id \<Rightarrow> pyval \<Rightarrow> world \<Rightarrow> world" where
  "EduBot_run b token w = w\<lparr>trace := trace w @ [Blocking_run b token]\<rparr>"

text \<open>
  Modelled from the spec: the method \<^verbatim>\<open>EduBot.start\<close>, not among the sources: ``the
  bot's asynchronous start routine''. Being asynchronous, a call of it does nothing but
  make the coroutine.
\<close>

definition EduBot_start :: "bot_id \<Rightarrow> pyval \<Rightarrow> coroutine" where
  "EduBot_start b token = EduBot_start_coro b token"

subsection \<open>The runners\<close>

datatype runner_class = BotRunner_class | InteractiveBotRunner_class

text \<open>
  A runner object. Its attributes are set one by one in \<^verbatim>\<open>__init__\<close>; reading one that
  is not set yet raises \<^verbatim>\<open>AttributeError\<close>. \<open>cls\<close> decides which \<^verbatim>\<open>run\<close> a call of
  \<^verbatim>\<open>self.run\<close> reaches.
\<close>

record runner =
  cls :: runner_class
  bot :: "bot_id option"
  loop :: "loop_id option"

definition new_object :: "runner_class \<Rightarrow> runner" where
  "new_object c = \<lparr>cls = c, bot = None, loop = None\<rparr>"

definition error_msg :: string where
  "error_msg = ''No Discord API token could be retrieved''"

text \<open>
  \<^verbatim>\<open>BotRunner.validate_token\<close>. The \<^verbatim>\<open>assert\<close> is the statement of an interpreter
  started without \<^verbatim>\<open>-O\<close>, the way the launcher documents its use.
\<close>

definition validate_token :: "pyval \<Rightarrow> error + unit" where
  "validate_token token =
     (if isinstance_str token \<and> py_len token \<noteq> Some 0 then Inr ()
      else Inl (AssertionError error_msg))"

text \<open>\<^verbatim>\<open>BotRunner.run\<close>: the blocking call. It returns \<^verbatim>\<open>None\<close>.\<close>

definition BotRunner_run :: "runner \<Rightarrow> pyval \<Rightarrow> world \<Rightarrow> task option result" where
  "BotRunner_run self token w =
     (case bot self of
        None \<Rightarrow> (Inl (AttributeError ''bot''), w)
      | Some b \<Rightarrow> (Inr None, EduBot_run b token w))"

text \<open>\<^verbatim>\<open>InteractiveBotRunner.create_task\<close>\<close>

definition create_task :: "runner \<Rightarrow> coroutine \<Rightarrow> world \<Rightarrow> task result" where
  "create_task self coro w =
     (case loop self of
        None \<Rightarrow> (Inl (AttributeError ''loop''), w)
      | Some l \<Rightarrow> (case loop_create_task l coro w of (t, w') \<Rightarrow> (Inr t, w')))"

text \<open>
  \<^verbatim>\<open>InteractiveBotRunner.run\<close>. The body is the single expression statement
  \<^verbatim>\<open>self.create_task(self.bot.start(token))\<close>: there is no \<^verbatim>\<open>return\<close>, so the value
  of the call is Python's \<^verbatim>\<open>None\<close>, here \<open>Inr None\<close>. The bound method
  \<^verbatim>\<open>self.create_task\<close> is looked up before the argument is evaluated; the lookup
  cannot fail, the method being one of the class. The annotation
  \<^verbatim>\<open>-> asyncio.Task\<close> is not enforced by Python and changes nothing.
\<close>

definition InteractiveBotRunner_run :: "runner \<Rightarrow> pyval \<Rightarrow> world \<Rightarrow> task option result" where
  "InteractiveBotRunner_run self token w =
     (case bot self of
        None \<Rightarrow> (Inl (AttributeError ''bot''), w)
      | Some b \<Rightarrow>
          (case create_task self (EduBot_start b token) w of
             (Inl e, w') \<Rightarrow> (Inl e, w')
           | (Inr t, w') \<Rightarrow> (Inr None, w')))"

text \<open>\<^verbatim>\<open>self.run(token)\<close>: the method of the object's class.\<close>

definition run :: "runner \<Rightarrow> pyval \<Rightarrow> world \<Rightarrow> task option result" where
  "run self token w =
     (case cls self of
        BotRunner_class \<Rightarrow> BotRunner_run self token w
      | InteractiveBotRunner_class \<Rightarrow> InteractiveBotRunner_run self token w)"

text \<open>\<^verbatim>\<open>BotRunner.__init__\<close>: validate, construct the bot, run.\<close>

definition BotRunner_init :: "runner \<Rightarrow> pyval \<Rightarrow> world \<Rightarrow> runner result" where
  "BotRunner_init self token w =
     (case validate_token token of
        Inl e \<Rightarrow> (Inl e, w)
      | Inr u \<Rightarrow>
          (case EduBot w of
             (b, w1) \<Rightarrow>
               (let self1 = self\<lparr>bot := Some b\<rparr>
                in (case run self1 token w1 of
                      (Inl e, w2) \<Rightarrow> (Inl e, w2)
                    | (Inr r, w2) \<Rightarrow> (Inr self1, w2)))))"

text \<open>
  \<^verbatim>\<open>InteractiveBotRunner.__init__\<close>: take the loop, switch its debug mode on, then the
  parent's \<^verbatim>\<open>__init__\<close>. What \<^verbatim>\<open>get_event_loop\<close> raises is not caught.
\<close>

definition InteractiveBotRunner_init :: "runner \<Rightarrow> pyval \<Rightarrow> world \<Rightarrow> runner result" where
  "InteractiveBotRunner_init self token w =
     (case get_event_loop w of
        (Inl e, w1) \<Rightarrow> (Inl e, w1)
      | (Inr l, w1) \<Rightarrow>
          (let self1 = self\<lparr>loop := Some l\<rparr>;
               w2 = set_debug l True w1
           in BotRunner_init self1 token w2))"

text \<open>The constructor calls \<^verbatim>\<open>BotRunner(token)\<close> and \<^verbatim>\<open>InteractiveBotRunner(token)\<close>.\<close>

definition BotRunner :: "pyval \<Rightarrow> world \<Rightarrow> runner result" where
  "BotRunner token w = BotRunner_init (new_object BotRunner_class) token w"

definition InteractiveBotRunner :: "pyval \<Rightarrow> world \<Rightarrow> runner result" where
  "InteractiveBotRunner token w =
     InteractiveBotRunner_init (new_object InteractiveBotRunner_class) token w"

subsection \<open>The token of the environment and the command line\<close>

text \<open>\<^verbatim>\<open>os.getenv(name)\<close>: the value of the variable, or \<^verbatim>\<open>None\<close> when it is not set.\<close>

definition getenv :: "(string \<rightharpoonup> string) \<Rightarrow> string \<Rightarrow> pyval" where
  "getenv environ name = (case environ name of None \<Rightarrow> PyNone | Some v \<Rightarrow> PyStr v)"

text \<open>The module constant \<^verbatim>\<open>TOKEN = os.getenv("DISCORD_TOKEN")\<close>, read once at import.\<close>

definition TOKEN :: "(string \<rightharpoonup> string) \<Rightarrow> pyval" where
  "TOKEN environ = getenv environ ''DISCORD_TOKEN''"

text \<open>
  \<^verbatim>\<open>@click.option("--token", default=TOKEN)\<close>: the parameter is the string given after
  the flag, and the default when the command line has no such flag. The command line is
  reduced to that flag: \<open>None\<close> when absent, \<open>Some X\<close> for \<^verbatim>\<open>--token=X\<close>.
\<close>

definition token_option :: "pyval \<Rightarrow> string option \<Rightarrow> pyval" where
  "token_option dflt flag = (case flag of None \<Rightarrow> dflt | Some x \<Rightarrow> PyStr x)"

text \<open>\<^verbatim>\<open>cli\<close>: the command, its option resolved, calling \<^verbatim>\<open>BotRunner(token)\<close>.\<close>

definition cli :: "(string \<rightharpoonup> string) \<Rightarrow> string option \<Rightarrow> world \<Rightarrow> runner result" where
  "cli environ flag w = BotRunner (token_option (TOKEN environ) flag) w"

subsection \<open>The probe for an interactive console\<close>

text \<open>
  What the probe meets: the package \<^verbatim>\<open>IPython\<close> is absent, or it is installed and
  \<^verbatim>\<open>get_ipython()\<close> gives the running shell, \<^verbatim>\<open>None\<close> when no console is running.
\<close>

datatype ipython = Absent | Installed "nat option"

text \<open>\<^verbatim>\<open>from IPython import get_ipython\<close>: the function, or the import error.\<close>

definition import_get_ipython :: "ipython \<Rightarrow> error + (unit \<Rightarrow> pyval)" where
  "import_get_ipython env =
     (case env of
        Absent \<Rightarrow> Inl (ModuleNotFoundError ''No module named IPython'')
      | Installed shell \<Rightarrow>
          Inr (\<lambda>u. case shell of None \<Rightarrow> PyNone | Some sh \<Rightarrow> PyObj sh))"

text \<open>
  \<^verbatim>\<open>is_ipython\<close>: the value of \<^verbatim>\<open>get_ipython()\<close> as it is, and \<^verbatim>\<open>False\<close> when an
  \<^verbatim>\<open>ImportError\<close> is caught. Any other exception passes through.
\<close>

definition is_ipython :: "ipython \<Rightarrow> error + pyval" where
  "is_ipython env =
     (case import_get_ipython env of
        Inr get_ipython \<Rightarrow> Inr (get_ipython ())
      | Inl e \<Rightarrow> (if is_ImportError e then Inr (PyBool False) else Inl e))"

text \<open>An interactive console is present when the package is there and a shell is running.\<close>

fun console_present :: "ipython \<Rightarrow> bool" where
  "console_present Absent = False"
| "console_present (Installed None) = False"
| "console_present (Installed (Some sh)) = True"

subsection \<open>Importing the bot\<close>

text \<open>
  \<^verbatim>\<open>os.path.dirname\<close> and \<^verbatim>\<open>os.path.join\<close> as \<^verbatim>\<open>posixpath\<close> has them: the head of
  a path is what comes up to its last slash, without trailing slashes unless it is made of
  slashes only; joining puts one slash between the parts unless the first is empty or ends
  in a slash, and an absolute second part replaces the first.
\<close>

definition dirname :: "string \<Rightarrow> string" where
  "dirname p =
     (let head = rev (dropWhile (\<lambda>c. c \<noteq> CHR ''/'') (rev p))
      in if head \<noteq> [] \<and> \<not> list_all (\<lambda>c. c = CHR ''/'') head
         then rev (dropWhile (\<lambda>c. c = CHR ''/'') (rev head))
         else head)"

definition path_join :: "string \<Rightarrow> string \<Rightarrow> string" where
  "path_join a b =
     (if take 1 b = ''/'' then b
      else if a = [] \<or> take 1 (rev a) = ''/'' then a @ b
      else a @ ''/'' @ b)"

text \<open>
  The state the import statement of the module works on: \<^verbatim>\<open>__package__\<close> (empty or
  \<^verbatim>\<open>None\<close> when \<^verbatim>\<open>run.py\<close> is run as a script), \<^verbatim>\<open>sys.path\<close>, and the path of
  \<^verbatim>\<open>run.py\<close> that \<^verbatim>\<open>inspect.getfile\<close> reports.
\<close>

record import_state =
  package :: pyval
  sys_path :: "string list"
  filepath :: string

text \<open>
  The \<^verbatim>\<open>try\<close> statement at the top of the module. \<open>finder\<close> is the import system:
  whether \<^verbatim>\<open>from edubot.bot import EduBot\<close> succeeds with a given \<^verbatim>\<open>sys.path\<close>
  (\<open>None\<close>) or raises. The second import sits in the handler, so what it raises is
  not caught.
\<close>

definition import_EduBot ::
    "(string list \<Rightarrow> error option) \<Rightarrow> import_state \<Rightarrow> (error + unit) \<times> import_state" where
  "import_EduBot finder st =
     (case finder (sys_path st) of
        None \<Rightarrow> (Inr (), st)
      | Some e \<Rightarrow>
          (if is_ImportError e then
             (if \<not> py_truthy (package st) then
                (let st' = st\<lparr>sys_path :=
                              path_join (dirname (filepath st)) ''..'' # sys_path st\<rparr>
                 in (case finder (sys_path st') of
                       None \<Rightarrow> (Inr (), st')
                     | Some e' \<Rightarrow> (Inl e', st')))
              else (Inl e, st))
           else (Inl e, st)))"

subsection \<open>Reading the trace, and two worlds to run the launcher in\<close>

text \<open>The bots constructed and the blocking runs entered so far, in order.\<close>

fun constructed_bots :: "event list \<Rightarrow> bot_id list" where
  "constructed_bots [] = []"
| "constructed_bots (Bot_constructed b # es) = b # constructed_bots es"
| "constructed_bots (e # es) = constructed_bots es"


text \<open>
  Whether \<^verbatim>\<open>asyncio.get_event_loop\<close> has a loop to give: one is current, or one can
  still be made for the thread.
\<close>

definition loop_available :: "world \<Rightarrow> bool" where
  "loop_available w = (current_loop w \<noteq> None \<or> (\<not> set_called w \<and> main_thread w))"

text \<open>A process that has just started: no event loop yet, no bot, nothing done.\<close>

definition fresh_world :: world where
  "fresh_world =
     \<lparr>current_loop = None, set_called = False, main_thread = True,
      loops = (\<lambda>l. \<lparr>debug = False, scheduled = []\<rparr>),
      next_loop = 0, next_bot = 0, trace = []\<rparr>"

text \<open>
  An interactive console: loop 0 is its running loop, with debug mode off and one
  coroutine of the console's own waiting on it.
\<close>

definition console_world :: world where
  "console_world =
     \<lparr>current_loop = Some 0, set_called = True, main_thread = True,
      loops = (\<lambda>l. \<lparr>debug = False, scheduled = (if l = 0 then [Other_coro 7] else [])\<rparr>),
      next_loop = 1, next_bot = 0, trace = [Loop_created 0]\<rparr>"

text \<open>
  The main thread after a call of \<^verbatim>\<open>asyncio.run\<close> has returned: the loop it made is
  gone, none is current, and one has been set before.
\<close>

definition loopless_world :: world where
  "loopless_world =
     \<lparr>current_loop = None, set_called = True, main_thread = True,
      loops = (\<lambda>l. \<lparr>debug = False, scheduled = []\<rparr>),
      next_loop = 1, next_bot = 0, trace = [Loop_created 0]\<rparr>"

text \<open>
  An import system for a checkout of the repository under \<^verbatim>\<open>/srv/EduBot\<close> that is not
  installed: the package is found only when the source directory is on the path.
\<close>

definition local_checkout :: "string list \<Rightarrow> error option" where
  "local_checkout path =
     (if ''/srv/EduBot/src/edubot/..'' \<in> set path then None
      else Some (ModuleNotFoundError ''No module named edubot''))"

section \<open>Properties\<close>

subsection \<open>Auxiliary facts\<close>

lemma constructed_bots_append:
  "constructed_bots (es @ fs) = constructed_bots es @ constructed_bots fs"
  by (induction es rule: constructed_bots.induct) simp_all


lemma validate_token_invalid:
  "token = PyStr [] \<or> \<not> isinstance_str token \<Longrightarrow>
     validate_token token = Inl (AssertionError error_msg)"
  by (cases token) (auto simp: validate_token_def)

lemma validate_token_valid:
  "s \<noteq> [] \<Longrightarrow> validate_token (PyStr s) = Inr ()"
  by (simp add: validate_token_def)

text \<open>The two outcomes of \<^verbatim>\<open>get_event_loop\<close>.\<close>

lemma get_event_loop_available:
  "loop_available w \<Longrightarrow>
     get_event_loop w =
       (case current_loop w of
          Some l \<Rightarrow> (Inr l, w)
        | None \<Rightarrow>
            (Inr (next_loop w),
             w\<lparr>current_loop := Some (next_loop w),
               set_called := True,
               loops := (loops w)(next_loop w := \<lparr>debug = False, scheduled = []\<rparr>),
               next_loop := Suc (next_loop w),
               trace := trace w @ [Loop_created (next_loop w)]\<rparr>))"
  by (auto simp: loop_available_def get_event_loop_def Let_def split: option.split)

lemma get_event_loop_unavailable:
  "\<not> loop_available w \<Longrightarrow>
     get_event_loop w = (Inl (RuntimeError ''There is no current event loop''), w)"
  by (auto simp: loop_available_def get_event_loop_def)


lemma BotRunner_init_invalid:
  "token = PyStr [] \<or> \<not> isinstance_str token \<Longrightarrow>
     BotRunner_init self token w = (Inl (AssertionError error_msg), w)"
  by (simp add: BotRunner_init_def validate_token_invalid)

text \<open>
  With an invalid token the interactive constructor stops at the loop when there is none
  to take, and after the two loop calls otherwise.
\<close>

lemma InteractiveBotRunner_invalid:
  "token = PyStr [] \<or> \<not> isinstance_str token \<Longrightarrow>
     InteractiveBotRunner token w =
       (case get_event_loop w of
          (Inl e, w1) \<Rightarrow> (Inl e, w1)
        | (Inr l, w1) \<Rightarrow> (Inl (AssertionError error_msg), set_debug l True w1))"
  by (simp add: InteractiveBotRunner_def InteractiveBotRunner_init_def BotRunner_init_invalid
        Let_def split: prod.split sum.split)





subsection \<open>Token validation at construction\<close>

text \<open>
  Claim C1, as stated, fails for \<^verbatim>\<open>InteractiveBotRunner\<close>: on the main thread after
  \<^verbatim>\<open>asyncio.run\<close> has returned there is no loop to take, and the constructor fails with
  the \<^verbatim>\<open>RuntimeError\<close> of \<^verbatim>\<open>asyncio.get_event_loop\<close>, raised before the token is
  looked at, not with the assertion error.
\<close>

theorem invalid_token_RuntimeError_counterexample:
  "(PyNone = PyStr [] \<or> \<not> isinstance_str PyNone)
   \<and> fst (InteractiveBotRunner PyNone loopless_world) =
       Inl (RuntimeError ''There is no current event loop'')
   \<and> fst (InteractiveBotRunner PyNone loopless_world) \<noteq>
       Inl (AssertionError ''No Discord API token could be retrieved'')"
  by (simp add: InteractiveBotRunner_def InteractiveBotRunner_init_def get_event_loop_def
        loopless_world_def)

text \<open>
  Claim C1, amended. For a token that is the empty string or not a string, constructing
  a \<^verbatim>\<open>BotRunner\<close> fails with the assertion error carrying the message
  ``No Discord API token could be retrieved'' and leaves the world as it was.
  Constructing an \<^verbatim>\<open>InteractiveBotRunner\<close> fails too: with that assertion error when
  \<^verbatim>\<open>asyncio.get_event_loop\<close> has a loop to give, and with its \<^verbatim>\<open>RuntimeError\<close> when
  it has none. In every case no bot has been constructed when the construction fails.
\<close>

theorem invalid_token_fails:
  assumes "token = PyStr [] \<or> \<not> isinstance_str token"
  shows "fst (BotRunner token w) =
           Inl (AssertionError ''No Discord API token could be retrieved'')
       \<and> snd (BotRunner token w) = w
       \<and> (loop_available w \<longrightarrow>
            fst (InteractiveBotRunner token w) =
              Inl (AssertionError ''No Discord API token could be retrieved''))
       \<and> (\<not> loop_available w \<longrightarrow>
            fst (InteractiveBotRunner token w) =
              Inl (RuntimeError ''There is no current event loop''))
       \<and> constructed_bots (trace (snd (InteractiveBotRunner token w))) =
           constructed_bots (trace w)
       \<and> next_bot (snd (InteractiveBotRunner token w)) = next_bot w"
proof (cases "loop_available w")
  case True
  with assms show ?thesis
    by (simp add: BotRunner_def BotRunner_init_invalid InteractiveBotRunner_invalid
          get_event_loop_available error_msg_def set_debug_def constructed_bots_append
          split: option.split)
next
  case False
  with assms show ?thesis
    by (simp add: BotRunner_def BotRunner_init_invalid InteractiveBotRunner_invalid
          get_event_loop_unavailable error_msg_def)
qed

theorem invalid_token_fails_witness:
  "(PyNone = PyStr [] \<or> \<not> isinstance_str PyNone)
   \<and> fst (BotRunner PyNone fresh_world) =
       Inl (AssertionError ''No Discord API token could be retrieved'')
   \<and> loop_available console_world
   \<and> fst (InteractiveBotRunner PyNone console_world) =
       Inl (AssertionError ''No Discord API token could be retrieved'')
   \<and> \<not> loop_available loopless_world
   \<and> fst (InteractiveBotRunner PyNone loopless_world) =
       Inl (RuntimeError ''There is no current event loop'')
   \<and> constructed_bots (trace (snd (InteractiveBotRunner PyNone console_world))) = []"
  using invalid_token_fails [of PyNone fresh_world]
        invalid_token_fails [of PyNone console_world]
        invalid_token_fails [of PyNone loopless_world]
  by (simp add: console_world_def loopless_world_def loop_available_def)

text \<open>
  Claim C2. For a non-empty string token, constructing a \<^verbatim>\<open>BotRunner\<close> passes
  validation, constructs one bot and enters that bot's blocking run once, with that token:
  the construction adds to the trace the construction of the bot and its run, and
  nothing else.
\<close>

theorem BotRunner_valid_token:
  assumes "token = PyStr s" and "s \<noteq> []"
  shows "validate_token token = Inr ()
       \<and> BotRunner token w =
           (Inr \<lparr>cls = BotRunner_class, bot = Some (next_bot w), loop = None\<rparr>,
            w\<lparr>next_bot := Suc (next_bot w),
              trace := trace w @ [Bot_constructed (next_bot w),
                                  Blocking_run (next_bot w) token]\<rparr>)"
  using assms
  by (simp add: BotRunner_def BotRunner_init_def validate_token_valid EduBot_def Let_def
        run_def new_object_def BotRunner_run_def EduBot_run_def)

theorem BotRunner_valid_token_witness:
  "PyStr ''abc'' = PyStr ''abc'' \<and> ''abc'' \<noteq> []
   \<and> fst (BotRunner (PyStr ''abc'') fresh_world) =
       Inr \<lparr>cls = BotRunner_class, bot = Some 0, loop = None\<rparr>
   \<and> trace (snd (BotRunner (PyStr ''abc'') fresh_world)) =
       [Bot_constructed 0, Blocking_run 0 (PyStr ''abc'')]"
  using BotRunner_valid_token [of "PyStr ''abc''" "''abc''" fresh_world]
  by (simp add: fresh_world_def)

subsection \<open>The interactive runner\<close>










text \<open>
  Claim C10, as stated, fails: on the main thread after \<^verbatim>\<open>asyncio.run\<close> has returned
  there is no loop to take, and constructing an \<^verbatim>\<open>InteractiveBotRunner\<close> with an empty
  token fails with \<^verbatim>\<open>RuntimeError\<close> and leaves the world as it was: no loop is taken
  and no debug mode is set.
\<close>

theorem InteractiveBotRunner_invalid_token_no_loop_counterexample:
  "(PyStr [] = PyStr [] \<or> \<not> isinstance_str (PyStr []))
   \<and> fst (InteractiveBotRunner (PyStr []) loopless_world) =
       Inl (RuntimeError ''There is no current event loop'')
   \<and> snd (InteractiveBotRunner (PyStr []) loopless_world) = loopless_world
   \<and> \<not> debug (loops (snd (InteractiveBotRunner (PyStr []) loopless_world)) 0)
   \<and> trace (snd (InteractiveBotRunner (PyStr []) loopless_world)) = [Loop_created 0]"
  by (simp add: InteractiveBotRunner_def InteractiveBotRunner_init_def get_event_loop_def
        loopless_world_def)

text \<open>
  Claim C10, amended. With a token that is the empty string or not a string, and when
  \<^verbatim>\<open>asyncio.get_event_loop\<close> has a loop to give, constructing an
  \<^verbatim>\<open>InteractiveBotRunner\<close> fails with the assertion error, and the world it leaves is
  the one in which the loop has been taken and its debug mode set: debug mode is on for
  that loop, and the trace has the loop calls. When there is no loop to give, the
  construction fails with the \<^verbatim>\<open>RuntimeError\<close> of \<^verbatim>\<open>get_event_loop\<close> and the
  world is as it was.
\<close>

theorem InteractiveBotRunner_invalid_token_sets_debug:
  assumes "token = PyStr [] \<or> \<not> isinstance_str token"
  shows "(loop_available w \<longrightarrow>
            (let l = (case current_loop w of Some l' \<Rightarrow> l' | None \<Rightarrow> next_loop w)
             in fst (get_event_loop w) = Inr l
              \<and> fst (InteractiveBotRunner token w) =
                  Inl (AssertionError ''No Discord API token could be retrieved'')
              \<and> snd (InteractiveBotRunner token w) =
                  set_debug l True (snd (get_event_loop w))
              \<and> debug (loops (snd (InteractiveBotRunner token w)) l)
              \<and> trace (snd (InteractiveBotRunner token w)) =
                  trace w
                  @ (case current_loop w of
                       Some l' \<Rightarrow> [] | None \<Rightarrow> [Loop_created (next_loop w)])
                  @ [Debug_set l True]))
       \<and> (\<not> loop_available w \<longrightarrow>
            InteractiveBotRunner token w =
              (Inl (RuntimeError ''There is no current event loop''), w))"
proof (cases "loop_available w")
  case True
  with assms show ?thesis
    by (simp add: InteractiveBotRunner_invalid get_event_loop_available Let_def error_msg_def
          set_debug_def split: option.split)
next
  case False
  with assms show ?thesis
    by (simp add: InteractiveBotRunner_invalid get_event_loop_unavailable)
qed

theorem InteractiveBotRunner_invalid_token_sets_debug_witness:
  "(PyStr [] = PyStr [] \<or> \<not> isinstance_str (PyStr []))
   \<and> loop_available console_world
   \<and> current_loop console_world = Some 0
   \<and> \<not> debug (loops console_world 0)
   \<and> fst (InteractiveBotRunner (PyStr []) console_world) =
       Inl (AssertionError ''No Discord API token could be retrieved'')
   \<and> debug (loops (snd (InteractiveBotRunner (PyStr []) console_world)) 0)
   \<and> trace (snd (InteractiveBotRunner (PyStr []) console_world)) =
       [Loop_created 0, Debug_set 0 True]
   \<and> \<not> loop_available loopless_world
   \<and> fst (InteractiveBotRunner (PyStr []) loopless_world) =
       Inl (RuntimeError ''There is no current event loop'')"
  using InteractiveBotRunner_invalid_token_sets_debug [of "PyStr []" console_world]
        InteractiveBotRunner_invalid_token_sets_debug [of "PyStr []" loopless_world]
  by (simp add: console_world_def loopless_world_def loop_available_def get_event_loop_def
        set_debug_def)

subsection \<open>The command line\<close>

text \<open>
  Claim C4. Without a \<^verbatim>\<open>--token\<close> flag the command constructs the \<^verbatim>\<open>BotRunner\<close>
  with the token of the environment variable \<^verbatim>\<open>DISCORD_TOKEN\<close> (\<^verbatim>\<open>None\<close> when it is
  not set); with \<^verbatim>\<open>--token=X\<close> it constructs it with \<open>X\<close>, whatever the environment.
\<close>

theorem cli_token:
  "cli environ None w = BotRunner (TOKEN environ) w
   \<and> TOKEN environ =
       (case environ ''DISCORD_TOKEN'' of None \<Rightarrow> PyNone | Some v \<Rightarrow> PyStr v)
   \<and> cli environ (Some x) w = BotRunner (PyStr x) w
   \<and> cli environ (Some x) w = cli environ' (Some x) w"
  by (simp add: cli_def token_option_def TOKEN_def getenv_def)

subsection \<open>The probe for an interactive console\<close>

text \<open>
  Claim C6. When no interactive console is present, \<^verbatim>\<open>is_ipython\<close> does not raise and
  returns a value that is false as a truth value; when the package \<^verbatim>\<open>IPython\<close> is
  absent, that value is \<^verbatim>\<open>False\<close>.
\<close>

theorem is_ipython_no_console:
  assumes "\<not> console_present env"
  shows "(case is_ipython env of Inl e \<Rightarrow> False | Inr v \<Rightarrow> \<not> py_truthy v)
       \<and> is_ipython Absent = Inr (PyBool False)"
  using assms
  by (cases env rule: console_present.cases)
     (simp_all add: is_ipython_def import_get_ipython_def)

theorem is_ipython_no_console_witness:
  "\<not> console_present Absent \<and> is_ipython Absent = Inr (PyBool False)
   \<and> \<not> console_present (Installed None) \<and> is_ipython (Installed None) = Inr PyNone
   \<and> \<not> py_truthy PyNone \<and> \<not> py_truthy (PyBool False)"
  using is_ipython_no_console [of Absent] is_ipython_no_console [of "Installed None"]
  by (simp add: is_ipython_def import_get_ipython_def)

subsection \<open>Importing the bot\<close>

text \<open>
  Claim C8. When the import of the bot raises an import error and the launcher is
  imported as a package, that same error is raised and nothing has changed; when the
  launcher is run as a script, the directory above it is put at the front of the search
  path and the import is tried again, the outcome of the second try being the outcome.
  The search path is changed in the script case only.
\<close>

theorem import_error_reraised:
  assumes "finder (sys_path st) = Some e" and "is_ImportError e"
  shows "(py_truthy (package st) \<longrightarrow> import_EduBot finder st = (Inl e, st))
       \<and> (\<not> py_truthy (package st) \<longrightarrow>
            import_EduBot finder st =
              (case finder (path_join (dirname (filepath st)) ''..'' # sys_path st) of
                 None \<Rightarrow> Inr ()
               | Some e' \<Rightarrow> Inl e',
               st\<lparr>sys_path := path_join (dirname (filepath st)) ''..'' # sys_path st\<rparr>))
       \<and> (sys_path (snd (import_EduBot finder st)) \<noteq> sys_path st) =
           (\<not> py_truthy (package st))"
  using assms
  by (simp add: import_EduBot_def Let_def split: option.split)

theorem import_error_reraised_witness:
  "local_checkout [''/usr/lib/python3''] = Some (ModuleNotFoundError ''No module named edubot'')
   \<and> is_ImportError (ModuleNotFoundError ''No module named edubot'')
   \<and> import_EduBot local_checkout
        \<lparr>package = PyStr ''edubot'', sys_path = [''/usr/lib/python3''],
         filepath = ''/srv/EduBot/src/edubot/run.py''\<rparr> =
       (Inl (ModuleNotFoundError ''No module named edubot''),
        \<lparr>package = PyStr ''edubot'', sys_path = [''/usr/lib/python3''],
         filepath = ''/srv/EduBot/src/edubot/run.py''\<rparr>)
   \<and> import_EduBot local_checkout
        \<lparr>package = PyNone, sys_path = [''/usr/lib/python3''],
         filepath = ''/srv/EduBot/src/edubot/run.py''\<rparr> =
       (Inr (),
        \<lparr>package = PyNone, sys_path = [''/srv/EduBot/src/edubot/..'', ''/usr/lib/python3''],
         filepath = ''/srv/EduBot/src/edubot/run.py''\<rparr>)"
  using import_error_reraised
          [of local_checkout
              "\<lparr>package = PyStr ''edubot'', sys_path = [''/usr/lib/python3''],
                filepath = ''/srv/EduBot/src/edubot/run.py''\<rparr>"
              "ModuleNotFoundError ''No module named edubot''"]
        import_error_reraised
          [of local_checkout
              "\<lparr>package = PyNone, sys_path = [''/usr/lib/python3''],
                filepath = ''/srv/EduBot/src/edubot/run.py''\<rparr>"
              "ModuleNotFoundError ''No module named edubot''"]
  by (simp add: local_checkout_def dirname_def path_join_def)

end
